theory Spec2Isabelle
  imports Main "HOL-Library.Sublist"
begin

section \<open>JavaScript strings\<close>

text \<open>
  Strings are \<open>char list\<close>. \<open>s.startsWith(p)\<close> is \<open>prefix p s\<close>, \<open>s.includes(p)\<close> is
  \<open>sublist p s\<close> (a contiguous occurrence). \<open>toLowerCase\<close> is modelled on ASCII letters;
  every URL used below is ASCII.
\<close>

definition startsWith :: "string \<Rightarrow> string \<Rightarrow> bool" where
  "startsWith s p = prefix p s"

definition str_includes :: "string \<Rightarrow> string \<Rightarrow> bool" where
  "str_includes s p = sublist p s"

definition lower_char :: "char \<Rightarrow> char" where
  "lower_char c =
     (let n = (of_char c :: nat) in if 65 \<le> n \<and> n \<le> 90 then char_of (n + 32) else c)"

definition toLowerCase :: "string \<Rightarrow> string" where
  "toLowerCase s = map lower_char s"

text \<open>\<open>s.replace(/\/$/, '')\<close>: one trailing slash is dropped.\<close>

definition dropTrailingSlash :: "string \<Rightarrow> string" where
  "dropTrailingSlash s = (if s \<noteq> [] \<and> last s = CHR ''/'' then butlast s else s)"

section \<open>The browser's environment\<close>

text \<open>
  What \<open>new URL(u)\<close> exposes to the scripts: the origin, the host name, the path, the
  decoded query parameters in order, and the fragment. The parser itself is the
  browser's, so it is a parameter of the model (\<open>new_URL\<close>, \<open>None\<close> when the constructor
  throws), as are \<open>encodeURIComponent\<close>, \<open>JSON.stringify\<close> on the session context, the
  serializer of query parameters and the extension's id.
\<close>

record URL =
  origin :: string
  hostname :: string
  pathname :: string
  searchParams :: "(string \<times> string) list"
  fragment :: string

record env =
  runtime_id :: string
  new_URL :: "string \<Rightarrow> URL option"
  encodeURIComponent :: "string \<Rightarrow> string"
  stringify :: "(string \<times> string) list \<Rightarrow> string"
  urlencoded :: "(string \<times> string) list \<Rightarrow> string"

text \<open>\<open>chrome.runtime.getURL(path)\<close> on Chrome and Opera.\<close>

definition getURL :: "env \<Rightarrow> string \<Rightarrow> string" where
  "getURL e path = ''chrome-extension://'' @ runtime_id e @ ''/'' @ path"

text \<open>\<open>searchParams.get(name) || ''\<close>: the first value of the name, or the empty string.\<close>

definition param_or_empty :: "(string \<times> string) list \<Rightarrow> string \<Rightarrow> string" where
  "param_or_empty ps name = (case map_of ps name of None \<Rightarrow> [] | Some v \<Rightarrow> v)"

definition deleteParam :: "string \<Rightarrow> URL \<Rightarrow> URL" where
  "deleteParam name u = u\<lparr>searchParams := filter (\<lambda>kv. fst kv \<noteq> name) (searchParams u)\<rparr>"

text \<open>
  \<open>urlObj.toString()\<close> for a URL without credentials: origin, path, the serialized query
  (absent when the serialization is empty) and the fragment.
\<close>

definition toString :: "env \<Rightarrow> URL \<Rightarrow> string" where
  "toString e u =
     origin u @ pathname u @
     (let q = urlencoded e (searchParams u) in if q = [] then [] else ''?'' @ q) @
     fragment u"

section \<open>URL keys (background.js)\<close>

definition isSearchHost :: "string \<Rightarrow> bool" where
  "isSearchHost h =
     (str_includes h ''google.com'' \<or> str_includes h ''bing.com'' \<or>
      str_includes h ''duckduckgo.com'')"

definition extractSearchQuery :: "env \<Rightarrow> string \<Rightarrow> string" where
  "extractSearchQuery e url =
     (case new_URL e url of
        None \<Rightarrow> []
      | Some urlObj \<Rightarrow>
          if str_includes (hostname urlObj) ''duckduckgo.com''
            then param_or_empty (searchParams urlObj) ''q''
          else if str_includes (hostname urlObj) ''google.com''
            then param_or_empty (searchParams urlObj) ''q''
          else if str_includes (hostname urlObj) ''bing.com''
            then param_or_empty (searchParams urlObj) ''q''
          else [])"

definition normalizeUrl :: "env \<Rightarrow> string \<Rightarrow> string" where
  "normalizeUrl e url =
     (case new_URL e url of
        None \<Rightarrow> toLowerCase url
      | Some urlObj \<Rightarrow>
          if str_includes (hostname urlObj) ''google.com'' \<or>
             str_includes (hostname urlObj) ''bing.com'' \<or>
             str_includes (hostname urlObj) ''duckduckgo.com''
          then
            (let searchQuery = extractSearchQuery e url
             in toLowerCase (origin urlObj @ ''/search/'' @
                  (if searchQuery = [] then ''home'' else searchQuery)))
          else
            dropTrailingSlash (toLowerCase (toString e
              (deleteParam ''utm_campaign'' (deleteParam ''utm_medium''
                (deleteParam ''utm_source'' urlObj))))))"

text \<open>
  The key the handlers look entries up under (\<open>compositeKey\<close> in \<open>logLookupInfo\<close> and in
  both navigation handlers).
\<close>

definition compositeKey :: "env \<Rightarrow> string \<Rightarrow> string" where
  "compositeKey e url =
     (let normalized = normalizeUrl e url; searchQuery = extractSearchQuery e url
      in if searchQuery \<noteq> [] then normalized @ ''::'' @ searchQuery else normalized)"

section \<open>URL keys (the Chrome background script)\<close>

text \<open>
  \<open>normalizeUrl\<close> and \<open>getUrlKey\<close> of the script that logs as background-chrome.js
  (src/unnamed/part_005).
\<close>

definition normalizeUrl_chrome :: "env \<Rightarrow> string \<Rightarrow> string" where
  "normalizeUrl_chrome e url =
     (case new_URL e url of
        None \<Rightarrow> toLowerCase url
      | Some parsed \<Rightarrow> toLowerCase (hostname parsed) @ pathname parsed)"

definition getUrlKey :: "env \<Rightarrow> string \<Rightarrow> string" where
  "getUrlKey e url =
     (case new_URL e url of
        None \<Rightarrow> normalizeUrl_chrome e url
      | Some u \<Rightarrow>
          (let normalized = normalizeUrl_chrome e url;
               searchQuery = param_or_empty (searchParams u) ''q''
           in if searchQuery \<noteq> [] then normalized @ ''::'' @ searchQuery else normalized))"

section \<open>Exempt URLs\<close>

text \<open>\<open>isBlockPage\<close> of background.js: the URL mentions the extension id and block.html.\<close>

definition isBlockPage :: "env \<Rightarrow> string \<Rightarrow> bool" where
  "isBlockPage e url = (str_includes url (runtime_id e) \<and> str_includes url ''block.html'')"

definition exemptDomains :: "string list" where
  "exemptDomains = [''localhost:5000'', ''127.0.0.1:5000'']"

definition isExemptUrl :: "env \<Rightarrow> string \<Rightarrow> bool" where
  "isExemptUrl e url =
     (list_ex (\<lambda>domain. str_includes url domain) exemptDomains \<or>
      startsWith url ''chrome://'' \<or>
      startsWith url ''chrome-extension://'' \<or>
      startsWith url ''opera://'' \<or>
      startsWith url ''about:'' \<or>
      startsWith url ''file://'' \<or>
      url = ''about:blank'' \<or>
      str_includes url ''localhost:5000'' \<or>
      isBlockPage e url)"

text \<open>
  The Chrome script and the older Opera script (src/unnamed/part_005 and part_006) share
  these variants.
\<close>

definition isBlockPage_simple :: "env \<Rightarrow> string \<Rightarrow> bool" where
  "isBlockPage_simple e url = str_includes url (getURL e ''block.html'')"

definition isExemptUrl_simple :: "env \<Rightarrow> string \<Rightarrow> bool" where
  "isExemptUrl_simple e url =
     (startsWith url ''chrome://'' \<or>
      startsWith url ''chrome-extension://'' \<or>
      startsWith url ''opera://'' \<or>
      startsWith url ''about:'' \<or>
      startsWith url ''file://'' \<or>
      url = ''about:blank'' \<or>
      str_includes url ''localhost:5000'' \<or>
      isBlockPage_simple e url)"

section \<open>The shared store and the engine's effects\<close>

record sessionData =
  s_state :: string
  s_startTime :: int
  s_endTime :: "int option"
  s_domain :: string
  s_context :: "(string \<times> string) list"

record entry =
  e_url :: string
  e_timestamp :: int
  e_reason :: string
  e_searchQuery :: string

text \<open>
  \<open>chrome.storage.local\<close>: each of the three keys may be absent. A read either delivers
  the store or fails, and the handler's first use of the missing data then throws.
\<close>

record storage =
  st_sessionData :: "sessionData option"
  st_blockedUrls :: "(string \<rightharpoonup> entry) option"
  st_allowedUrls :: "(string \<rightharpoonup> entry) option"

datatype storage_error = StorageError

text \<open>\<open>const { blockedUrls = {} } = data\<close>: an absent table reads as the empty one.\<close>

definition table :: "(string \<rightharpoonup> entry) option \<Rightarrow> (string \<rightharpoonup> entry)" where
  "table t = (case t of None \<Rightarrow> Map.empty | Some m \<Rightarrow> m)"

text \<open>\<open>t[k1] || t[k2]\<close>.\<close>

definition lookup2 :: "(string \<rightharpoonup> entry) \<Rightarrow> string \<Rightarrow> string \<Rightarrow> entry option" where
  "lookup2 t k1 k2 = (case t k1 of Some x \<Rightarrow> Some x | None \<Rightarrow> t k2)"

text \<open>\<open>data.sessionData && data.sessionData.state === 'active'\<close>.\<close>

definition sessionActive :: "storage \<Rightarrow> bool" where
  "sessionActive d =
     (case st_sessionData d of None \<Rightarrow> False | Some sd \<Rightarrow> s_state sd = ''active'')"

datatype message =
    URL_BLOCKED string "string option"
  | URL_ALLOWED string "string option"
  | URL_ANALYSIS_UPDATE string string string

datatype effect =
    StorageGet "string list"
  | StorageSet "string list"
  | StorageClear
  | TabsUpdate nat string
  | TabsCreate string
  | TabsRemove "nat list"
  | SendMessage message

text \<open>\<open>r || fallback\<close> on a string.\<close>

definition or_default :: "string \<Rightarrow> string \<Rightarrow> string" where
  "or_default r fallback = (if r = [] then fallback else r)"

subsection \<open>The block page's addresses\<close>

definition noSessionPage :: "env \<Rightarrow> string \<Rightarrow> string" where
  "noSessionPage e url =
     getURL e ''block.html'' @ ''?reason=no-session'' @
     ''&url='' @ encodeURIComponent e url @
     ''&original_url='' @ encodeURIComponent e url"

definition errorPage :: "env \<Rightarrow> string \<Rightarrow> string" where
  "errorPage e url =
     getURL e ''block.html'' @ ''?reason=error'' @ ''&url='' @ encodeURIComponent e url"

definition blockedPage :: "env \<Rightarrow> string \<Rightarrow> sessionData \<Rightarrow> entry \<Rightarrow> string" where
  "blockedPage e url sd blockedEntry =
     getURL e ''block.html'' @ ''?reason=blocked'' @
     ''&url='' @ encodeURIComponent e url @
     ''&original_url='' @ encodeURIComponent e url @
     ''&domain='' @ encodeURIComponent e (s_domain sd) @
     ''&explanation='' @ encodeURIComponent e (e_reason blockedEntry)"

definition analyzingPage :: "env \<Rightarrow> string \<Rightarrow> sessionData \<Rightarrow> string" where
  "analyzingPage e url sd =
     getURL e ''block.html'' @ ''?reason=analyzing'' @
     ''&url='' @ encodeURIComponent e url @
     ''&original_url='' @ encodeURIComponent e url @
     ''&domain='' @ encodeURIComponent e (s_domain sd) @
     ''&context='' @ encodeURIComponent e (stringify e (s_context sd))"

definition analyzingSearchPage :: "env \<Rightarrow> string \<Rightarrow> sessionData \<Rightarrow> string \<Rightarrow> string" where
  "analyzingSearchPage e url sd searchQuery =
     analyzingPage e url sd @ ''&search_query='' @ encodeURIComponent e searchQuery"

section \<open>The navigation handlers of background.js\<close>

record details =
  frameId :: int
  tabId :: nat
  url :: string

definition navKeys :: "string list" where
  "navKeys = [''sessionData'', ''blockedUrls'', ''allowedUrls'']"

text \<open>
  \<open>chrome.webNavigation.onBeforeNavigate\<close>. The handler gets the outcome of its one read
  of the store and the in-flight set \<open>activeUrls\<close>; it returns what it did, in order, and
  the in-flight set afterwards. The \<open>Inl\<close> branch is the \<open>catch\<close> block.
\<close>

definition onBeforeNavigate ::
  "env \<Rightarrow> details \<Rightarrow> storage_error + storage \<Rightarrow> string set \<Rightarrow> effect list \<times> string set" where
  "onBeforeNavigate e d rd activeUrls =
     (if frameId d \<noteq> 0 \<or> \<not> startsWith (url d) ''http'' then ([], activeUrls)
      else case rd of
        Inl err \<Rightarrow>
          (if \<not> isExemptUrl e (url d)
           then ([StorageGet navKeys, TabsUpdate (tabId d) (errorPage e (url d))], activeUrls)
           else ([StorageGet navKeys], activeUrls))
      | Inr data \<Rightarrow>
          (case (if sessionActive data then st_sessionData data else None) of
             None \<Rightarrow>
               (if \<not> isExemptUrl e (url d)
                then ([StorageGet navKeys, TabsUpdate (tabId d) (noSessionPage e (url d))],
                      activeUrls)
                else ([StorageGet navKeys], activeUrls))
           | Some sd \<Rightarrow>
               if isExemptUrl e (url d) then ([StorageGet navKeys], activeUrls)
               else if str_includes (url d) (runtime_id e) \<and> str_includes (url d) ''block.html''
                 then ([StorageGet navKeys], activeUrls)
               else
                 (let normalizedUrl = normalizeUrl e (url d);
                      blockedUrls = table (st_blockedUrls data);
                      searchQuery = extractSearchQuery e (url d);
                      compositeKey = (if searchQuery \<noteq> []
                                      then normalizedUrl @ ''::'' @ searchQuery
                                      else normalizedUrl)
                  in if searchQuery \<noteq> [] then
                       ([StorageGet navKeys,
                         TabsUpdate (tabId d) (analyzingSearchPage e (url d) sd searchQuery)],
                        insert (url d) activeUrls)
                     else
                       (case lookup2 blockedUrls compositeKey normalizedUrl of
                          Some blockedEntry \<Rightarrow>
                            ([StorageGet navKeys,
                              TabsUpdate (tabId d) (blockedPage e (url d) sd blockedEntry)],
                             activeUrls)
                        | None \<Rightarrow>
                            ([StorageGet navKeys,
                              TabsUpdate (tabId d) (analyzingPage e (url d) sd)],
                             insert (url d) activeUrls)))))"

text \<open>
  \<open>chrome.tabs.onUpdated\<close>: \<open>changeInfo.url\<close> may be absent; the store is read twice
  (the session first, the two tables once the session is known to be active).
\<close>

definition onUpdated ::
  "env \<Rightarrow> nat \<Rightarrow> string option \<Rightarrow> storage_error + storage \<Rightarrow> storage_error + storage \<Rightarrow>
   string set \<Rightarrow> effect list \<times> string set" where
  "onUpdated e tab changeUrl rd1 rd2 activeUrls =
     (case changeUrl of
        None \<Rightarrow> ([], activeUrls)
      | Some u \<Rightarrow>
        if u = [] \<or> \<not> startsWith u ''http'' then ([], activeUrls)
        else case rd1 of
          Inl err \<Rightarrow>
            (if \<not> isExemptUrl e u
             then ([StorageGet [''sessionData''], TabsUpdate tab (errorPage e u)], activeUrls)
             else ([StorageGet [''sessionData'']], activeUrls))
        | Inr data \<Rightarrow>
            (case (if sessionActive data then st_sessionData data else None) of
               None \<Rightarrow>
                 (if \<not> isExemptUrl e u
                  then ([StorageGet [''sessionData''], TabsUpdate tab (noSessionPage e u)],
                        activeUrls)
                  else ([StorageGet [''sessionData'']], activeUrls))
             | Some sd \<Rightarrow>
                 if isExemptUrl e u then ([StorageGet [''sessionData'']], activeUrls)
                 else if isBlockPage e u then ([StorageGet [''sessionData'']], activeUrls)
                 else
                   (let reads = [StorageGet [''sessionData''],
                                 StorageGet [''blockedUrls'', ''allowedUrls'']]
                    in case rd2 of
                      Inl err \<Rightarrow> (reads @ [TabsUpdate tab (errorPage e u)], activeUrls)
                    | Inr analysisData \<Rightarrow>
                        (let normalizedUrl = normalizeUrl e u;
                             blockedUrls = table (st_blockedUrls analysisData);
                             allowedUrls = table (st_allowedUrls analysisData);
                             searchQuery = extractSearchQuery e u;
                             compositeKey = (if searchQuery \<noteq> []
                                             then normalizedUrl @ ''::'' @ searchQuery
                                             else normalizedUrl)
                         in case lookup2 blockedUrls compositeKey normalizedUrl of
                              Some blockedEntry \<Rightarrow>
                                (reads @
                                 [TabsUpdate tab (blockedPage e u sd blockedEntry),
                                  SendMessage (URL_ANALYSIS_UPDATE u ''blocked''
                                    (or_default (e_reason blockedEntry) ''Blocked by policy''))],
                                 activeUrls)
                            | None \<Rightarrow>
                                (case lookup2 allowedUrls compositeKey normalizedUrl of
                                   Some allowedEntry \<Rightarrow>
                                     (reads @
                                      [SendMessage (URL_ANALYSIS_UPDATE u ''allowed''
                                         (or_default (e_reason allowedEntry)
                                            ''Content is productive''))],
                                      activeUrls)
                                 | None \<Rightarrow>
                                     if u \<notin> activeUrls
                                     then (reads @ [TabsUpdate tab (analyzingPage e u sd)],
                                           insert u activeUrls)
                                     else (reads, activeUrls))))))"

text \<open>What a handler did to tabs: the addresses it sent tabs to.\<close>

fun redirects :: "effect list \<Rightarrow> (nat \<times> string) list" where
  "redirects [] = []"
| "redirects (TabsUpdate t u # es) = (t, u) # redirects es"
| "redirects (x # es) = redirects es"

section \<open>The older Opera background script\<close>

text \<open>
  The script of src/unnamed/part_006. Its pre-navigation handler only enforces the
  no-session rule.
\<close>

definition onBeforeNavigate_simple ::
  "env \<Rightarrow> details \<Rightarrow> storage_error + storage \<Rightarrow> effect list" where
  "onBeforeNavigate_simple e d rd =
     (if frameId d \<noteq> 0 \<or> \<not> startsWith (url d) ''http'' then []
      else case rd of
        Inl err \<Rightarrow>
          (if \<not> isExemptUrl_simple e (url d)
           then [StorageGet navKeys, TabsUpdate (tabId d) (errorPage e (url d))]
           else [StorageGet navKeys])
      | Inr data \<Rightarrow>
          if \<not> sessionActive data \<and> \<not> isExemptUrl_simple e (url d)
          then [StorageGet navKeys, TabsUpdate (tabId d) (noSessionPage e (url d))]
          else [StorageGet navKeys])"

record tab =
  tab_id :: nat
  tab_url :: "string option"









section \<open>Session changes in background.js\<close>








section \<open>Recording verdicts (the Chrome background script)\<close>

record engine =
  eng_store :: storage
  eng_activeUrls :: "string set"

text \<open>\<open>message.reason || fallback\<close>.\<close>

definition reason_or :: "string option \<Rightarrow> string \<Rightarrow> string" where
  "reason_or r fallback = (case r of None \<Rightarrow> fallback | Some x \<Rightarrow> or_default x fallback)"

text \<open>
  The \<open>chrome.runtime.onMessage\<close> listener for \<open>URL_BLOCKED\<close> and \<open>URL_ALLOWED\<close>, at time
  \<open>now\<close>. When \<open>new URL(message.url)\<close> throws while the entry is built, the callback ends
  there: nothing is stored and the in-flight set keeps the URL.
\<close>

definition onMessage :: "env \<Rightarrow> int \<Rightarrow> message \<Rightarrow> engine \<Rightarrow> effect list \<times> engine" where
  "onMessage e now message eng =
     (case message of
        URL_BLOCKED u r \<Rightarrow>
          (let urlKey = getUrlKey e u;
               blockedUrls = table (st_blockedUrls (eng_store eng))
           in case new_URL e u of
                None \<Rightarrow> ([StorageGet [''blockedUrls'']], eng)
              | Some p \<Rightarrow>
                  ([StorageGet [''blockedUrls''], StorageSet [''blockedUrls''],
                    SendMessage (URL_ANALYSIS_UPDATE u ''blocked''
                      (reason_or r ''Not relevant to current task''))],
                   eng\<lparr>eng_store := (eng_store eng)\<lparr>st_blockedUrls :=
                          Some (blockedUrls(urlKey \<mapsto>
                            \<lparr>e_url = u, e_timestamp = now,
                             e_reason = reason_or r ''Not relevant to current task'',
                             e_searchQuery = param_or_empty (searchParams p) ''q''\<rparr>))\<rparr>,
                       eng_activeUrls := eng_activeUrls eng - {u}\<rparr>))
      | URL_ALLOWED u r \<Rightarrow>
          (let urlKey = getUrlKey e u;
               allowedUrls = table (st_allowedUrls (eng_store eng))
           in case new_URL e u of
                None \<Rightarrow> ([StorageGet [''allowedUrls'']], eng)
              | Some p \<Rightarrow>
                  ([StorageGet [''allowedUrls''], StorageSet [''allowedUrls''],
                    SendMessage (URL_ANALYSIS_UPDATE u ''allowed''
                      (reason_or r ''Content is productive''))],
                   eng\<lparr>eng_store := (eng_store eng)\<lparr>st_allowedUrls :=
                          Some (allowedUrls(urlKey \<mapsto>
                            \<lparr>e_url = u, e_timestamp = now,
                             e_reason = reason_or r ''Content is productive'',
                             e_searchQuery = param_or_empty (searchParams p) ''q''\<rparr>))\<rparr>,
                       eng_activeUrls := eng_activeUrls eng - {u}\<rparr>))
      | URL_ANALYSIS_UPDATE u a r \<Rightarrow> ([], eng))"

text \<open>The engine after the messages a page sent, in order.\<close>

fun deliver :: "env \<Rightarrow> int \<Rightarrow> message list \<Rightarrow> engine \<Rightarrow> engine" where
  "deliver e now [] eng = eng"
| "deliver e now (m # ms) eng = deliver e now ms (snd (onMessage e now m eng))"

subsection \<open>The tab-update handler of the Chrome script\<close>

definition getBlockPageReason :: "env \<Rightarrow> string \<Rightarrow> string option" where
  "getBlockPageReason e u =
     (case new_URL e u of None \<Rightarrow> None | Some p \<Rightarrow> map_of (searchParams p) ''reason'')"

text \<open>\<open>t && (t[k1] || t[k2])\<close> on a table that may be absent.\<close>

definition lookup2_opt ::
  "(string \<rightharpoonup> entry) option \<Rightarrow> string \<Rightarrow> string \<Rightarrow> entry option" where
  "lookup2_opt t k1 k2 = (case t of None \<Rightarrow> None | Some m \<Rightarrow> lookup2 m k1 k2)"

text \<open>
  \<open>chrome.tabs.onUpdated\<close> of the Chrome script, for \<open>changeInfo.status\<close> and \<open>tab.url\<close>.
  Its \<open>catch\<close> block only logs, so a failed read, or an address that \<open>new URL\<close> rejects,
  ends the handler with nothing further done.
\<close>

definition onUpdated_chrome ::
  "env \<Rightarrow> nat \<Rightarrow> string \<Rightarrow> string option \<Rightarrow> storage_error + storage \<Rightarrow>
   storage_error + storage \<Rightarrow> string set \<Rightarrow> effect list \<times> string set" where
  "onUpdated_chrome e tab status tabUrl rd1 rd2 activeUrls =
     (case tabUrl of
        None \<Rightarrow> ([], activeUrls)
      | Some u \<Rightarrow>
        if status \<noteq> ''complete'' \<or> u = [] then ([], activeUrls)
        else if startsWith u ''chrome'' \<or> startsWith u ''chrome-extension'' \<or>
                startsWith u ''about'' \<or> startsWith u ''edge'' \<or>
                str_includes u ''localhost:5000''
          then ([], activeUrls)
        else case rd1 of
          Inl err \<Rightarrow> ([StorageGet [''sessionData'']], activeUrls)
        | Inr data \<Rightarrow>
            (case (if sessionActive data then st_sessionData data else None) of
               None \<Rightarrow>
                 (if \<not> isBlockPage_simple e u
                  then ([StorageGet [''sessionData''], TabsUpdate tab (noSessionPage e u)],
                        activeUrls)
                  else ([StorageGet [''sessionData'']], activeUrls))
             | Some sd \<Rightarrow>
                 if \<not> isBlockPage_simple e u then
                   (let reads = [StorageGet [''sessionData''],
                                 StorageGet [''blockedUrls'', ''allowedUrls'']]
                    in case rd2 of
                      Inl err \<Rightarrow> (reads, activeUrls)
                    | Inr analysisData \<Rightarrow>
                        (case new_URL e u of
                           None \<Rightarrow> (reads, activeUrls)
                         | Some p \<Rightarrow>
                             (let normalizedUrl = normalizeUrl_chrome e u;
                                  blockedUrls = st_blockedUrls analysisData;
                                  allowedUrls = st_allowedUrls analysisData;
                                  searchQuery = param_or_empty (searchParams p) ''q'';
                                  urlKey = (if searchQuery \<noteq> []
                                            then normalizedUrl @ ''::'' @ searchQuery
                                            else normalizedUrl)
                              in case lookup2_opt blockedUrls urlKey normalizedUrl of
                                   Some blockedEntry \<Rightarrow>
                                     (reads @
                                      [SendMessage (URL_ANALYSIS_UPDATE u ''blocked''
                                         (e_reason blockedEntry))] @
                                      (if getBlockPageReason e u \<noteq> Some ''blocked''
                                       then [TabsUpdate tab (blockedPage e u sd blockedEntry)]
                                       else []),
                                      activeUrls)
                                 | None \<Rightarrow>
                                     if u \<notin> activeUrls \<and>
                                        lookup2_opt allowedUrls urlKey normalizedUrl = None
                                     then (reads @ [TabsUpdate tab (analyzingPage e u sd)],
                                           insert u activeUrls)
                                     else
                                       (case (case allowedUrls of None \<Rightarrow> None
                                              | Some m \<Rightarrow> m urlKey) of
                                          Some allowedEntry \<Rightarrow>
                                            (reads @
                                             [SendMessage (URL_ANALYSIS_UPDATE u ''allowed''
                                                (or_default (e_reason allowedEntry)
                                                   ''Content is productive''))],
                                             activeUrls)
                                        | None \<Rightarrow> (reads, activeUrls)))))
                 else if getBlockPageReason e u = Some ''no-session'' then
                   (case new_URL e u of
                      None \<Rightarrow> ([StorageGet [''sessionData'']], activeUrls)
                    | Some p \<Rightarrow>
                        (case map_of (searchParams p) ''original_url'' of
                           None \<Rightarrow> ([StorageGet [''sessionData'']], activeUrls)
                         | Some originalUrl \<Rightarrow>
                             if originalUrl \<noteq> []
                             then ([StorageGet [''sessionData''], TabsUpdate tab originalUrl],
                                   activeUrls)
                             else ([StorageGet [''sessionData'']], activeUrls)))
                 else ([StorageGet [''sessionData'']], activeUrls)))"

subsection \<open>Session timeout\<close>

definition cleanupAllData :: "env \<Rightarrow> tab list \<Rightarrow> effect list" where
  "cleanupAllData e tabs =
     StorageClear #
     map (\<lambda>t. TabsUpdate (tab_id t) ''chrome://newtab'')
       (filter (\<lambda>t. case tab_url t of None \<Rightarrow> False
                     | Some u \<Rightarrow> u \<noteq> [] \<and> isBlockPage_simple e u) tabs)"

definition cleared :: storage where
  "cleared = \<lparr>st_sessionData = None, st_blockedUrls = None, st_allowedUrls = None\<rparr>"

text \<open>
  \<open>checkSessionTimeout\<close>, run when the script loads and every minute after: once
  \<open>endTime - Date.now() <= 0\<close> the whole store is cleared.
\<close>

definition checkSessionTimeout ::
  "env \<Rightarrow> int \<Rightarrow> storage \<Rightarrow> tab list \<Rightarrow> effect list \<times> storage" where
  "checkSessionTimeout e now st tabs =
     (case st_sessionData st of
        None \<Rightarrow> ([StorageGet [''sessionData'']], st)
      | Some sd \<Rightarrow>
          (case s_endTime sd of
             None \<Rightarrow> ([StorageGet [''sessionData'']], st)
           | Some endTime \<Rightarrow>
               if endTime \<noteq> 0 \<and> endTime - now \<le> 0
               then (StorageGet [''sessionData''] # cleanupAllData e tabs, cleared)
               else ([StorageGet [''sessionData'']], st)))"

section \<open>The analysis page (block.js)\<close>

text \<open>The block page's script is the second document of src/extension/background.js.\<close>

text \<open>
  \<open>updateTimer\<close>, run every second while a block page is open: what it does to the store.
  Once \<open>endTime - Date.now()\<close> is no longer positive it clears the store.
\<close>

definition updateTimer :: "int \<Rightarrow> storage \<Rightarrow> storage" where
  "updateTimer now st =
     (case st_sessionData st of
        None \<Rightarrow> st
      | Some sd \<Rightarrow>
          (case s_endTime sd of
             None \<Rightarrow> st
           | Some endTime \<Rightarrow>
               if endTime \<noteq> 0 then (if endTime - now > 0 then st else cleared) else st))"

record analysis =
  isProductive :: bool
  explanation :: string

datatype fetch_outcome = NetworkError | HttpError nat | HttpOk analysis

text \<open>
  The page's state: its flags, the section it shows, its \<open>sessionStorage\<close> (keyed by URL,
  domain, session start and search query), where it sent the tab, the messages it sent
  to the background script, and how many analysis requests it made. An analysis result
  always carries \<open>isProductive\<close>, so the branch of \<open>handleAnalysisResult\<close> for results of
  the older bare format is not modelled; after \<open>URL_ALLOWED\<close> the page navigates in the
  callback of the message.
\<close>

record page =
  isAnalyzing :: bool
  globalRedirectFlag :: bool
  shown :: string
  cache :: "(string \<times> string option \<times> int \<times> string) \<rightharpoonup> (analysis \<times> int)"
  navigated :: "string option"
  sent :: "message list"
  calls :: nat

definition handleAnalysisResult :: "analysis \<Rightarrow> string \<Rightarrow> string \<Rightarrow> page \<Rightarrow> page" where
  "handleAnalysisResult result u originalUrl pg =
     (if isProductive result
      then pg\<lparr>sent := sent pg @ [URL_ALLOWED originalUrl None],
              globalRedirectFlag := True, navigated := Some originalUrl\<rparr>
      else pg\<lparr>shown := ''blocked'',
              sent := sent pg @ [URL_BLOCKED originalUrl (Some (explanation result))]\<rparr>)"

definition handleAnalysis ::
  "env \<Rightarrow> int \<Rightarrow> fetch_outcome \<Rightarrow> string \<Rightarrow> string \<Rightarrow> string option \<Rightarrow> sessionData \<Rightarrow>
   page \<Rightarrow> page" where
  "handleAnalysis e now outcome u originalUrl domainParam sd pg0 =
     (let pg = pg0\<lparr>isAnalyzing := True, shown := ''analyzing''\<rparr>;
          searchQuery = extractSearchQuery e u;
          cacheKey = (u, domainParam, s_startTime sd, searchQuery);
          isCacheValid = (case cache pg cacheKey of
                            None \<Rightarrow> False
                          | Some cachedData \<Rightarrow> snd cachedData \<noteq> 0 \<and> now - snd cachedData < 60000)
      in (if isCacheValid
          then handleAnalysisResult (fst (the (cache pg cacheKey))) u originalUrl pg
          else case outcome of
            NetworkError \<Rightarrow> pg\<lparr>calls := calls pg + 1, shown := ''error''\<rparr>
          | HttpError status \<Rightarrow> pg\<lparr>calls := calls pg + 1, shown := ''error''\<rparr>
          | HttpOk result \<Rightarrow>
              (let pg1 = pg\<lparr>calls := calls pg + 1, cache := (cache pg)(cacheKey \<mapsto> (result, now))\<rparr>
               in if isProductive result \<and> \<not> globalRedirectFlag pg1
                  then pg1\<lparr>globalRedirectFlag := True, navigated := Some originalUrl\<rparr>
                  else pg1\<lparr>shown := ''blocked'',
                           sent := sent pg1 @
                             [URL_BLOCKED originalUrl (Some (explanation result))]\<rparr>))
         \<lparr>isAnalyzing := False\<rparr>)"

section \<open>Example environment\<close>

text \<open>
  The values \<open>new URL\<close> gives at the addresses of the examples below; the examples'
  extension id; encoders that leave these addresses as they are.
\<close>

definition demo_URL :: "string \<Rightarrow> URL option" where
  "demo_URL u =
     (if u = ''https://a.test/x'' then
        Some \<lparr>origin = ''https://a.test'', hostname = ''a.test'', pathname = ''/x'',
              searchParams = [], fragment = []\<rparr>
      else if u = ''https://www.google.com/a::b?q=c'' then
        Some \<lparr>origin = ''https://www.google.com'', hostname = ''www.google.com'',
              pathname = ''/a::b'', searchParams = [(''q'', ''c'')], fragment = []\<rparr>
      else if u = ''https://www.google.com/a?q=b::c'' then
        Some \<lparr>origin = ''https://www.google.com'', hostname = ''www.google.com'',
              pathname = ''/a'', searchParams = [(''q'', ''b::c'')], fragment = []\<rparr>
      else if u = ''https://www.google.com/search?q=cats'' then
        Some \<lparr>origin = ''https://www.google.com'', hostname = ''www.google.com'',
              pathname = ''/search'', searchParams = [(''q'', ''cats'')], fragment = []\<rparr>
      else if u = ''https://www.google.com/search?q=dogs'' then
        Some \<lparr>origin = ''https://www.google.com'', hostname = ''www.google.com'',
              pathname = ''/search'', searchParams = [(''q'', ''dogs'')], fragment = []\<rparr>
      else if u = ''https://evil.test/?next=localhost:5000'' then
        Some \<lparr>origin = ''https://evil.test'', hostname = ''evil.test'', pathname = ''/'',
              searchParams = [(''next'', ''localhost:5000'')], fragment = []\<rparr>
      else if u = ''http://localhost:5000/'' then
        Some \<lparr>origin = ''http://localhost:5000'', hostname = ''localhost'', pathname = ''/'',
              searchParams = [], fragment = []\<rparr>
      else if u = ''https://www.google.com/search'' then
        Some \<lparr>origin = ''https://www.google.com'', hostname = ''www.google.com'',
              pathname = ''/search'', searchParams = [], fragment = []\<rparr>
      else if u = ''https://www.google.com/search?q=Cats'' then
        Some \<lparr>origin = ''https://www.google.com'', hostname = ''www.google.com'',
              pathname = ''/search'', searchParams = [(''q'', ''Cats'')], fragment = []\<rparr>
      else None)"

fun demo_urlencoded :: "(string \<times> string) list \<Rightarrow> string" where
  "demo_urlencoded [] = []"
| "demo_urlencoded [kv] = fst kv @ ''='' @ snd kv"
| "demo_urlencoded (kv # rest) = fst kv @ ''='' @ snd kv @ ''&'' @ demo_urlencoded rest"

definition demo_env :: env where
  "demo_env =
     \<lparr>runtime_id = ''abcdefghijklmnop'', new_URL = demo_URL,
      encodeURIComponent = (\<lambda>s. s), stringify = (\<lambda>c. ''[]''),
      urlencoded = demo_urlencoded\<rparr>"

definition demo_session :: sessionData where
  "demo_session =
     \<lparr>s_state = ''active'', s_startTime = 0, s_endTime = Some 1000,
      s_domain = ''work'', s_context = []\<rparr>"

definition demo_entry :: entry where
  "demo_entry =
     \<lparr>e_url = ''https://a.test/x'', e_timestamp = 10, e_reason = ''fine'',
      e_searchQuery = []\<rparr>"

definition demo_store :: storage where
  "demo_store =
     \<lparr>st_sessionData = Some demo_session, st_blockedUrls = None,
      st_allowedUrls = Some [''https://a.test/x'' \<mapsto> demo_entry]\<rparr>"

definition demo_nav :: details where
  "demo_nav = \<lparr>frameId = 0, tabId = 1, url = ''https://a.test/x''\<rparr>"

definition analyzer_nav :: details where
  "analyzer_nav = \<lparr>frameId = 0, tabId = 1, url = ''http://localhost:5000/''\<rparr>"

definition demo_active_store :: storage where
  "demo_active_store =
     \<lparr>st_sessionData = Some demo_session, st_blockedUrls = None, st_allowedUrls = None\<rparr>"

definition demo_engine :: engine where
  "demo_engine = \<lparr>eng_store = demo_active_store, eng_activeUrls = {''https://a.test/x''}\<rparr>"

definition demo_page :: page where
  "demo_page =
     \<lparr>isAnalyzing = False, globalRedirectFlag = False, shown = ''no-session'',
      cache = Map.empty, navigated = None, sent = [], calls = 0\<rparr>"

definition search_entry :: entry where
  "search_entry =
     \<lparr>e_url = ''https://www.google.com/search'', e_timestamp = 100,
      e_reason = ''no searching'', e_searchQuery = []\<rparr>"

definition folded_store :: storage where
  "folded_store =
     \<lparr>st_sessionData = Some demo_session,
      st_blockedUrls = Some [''https://www.google.com/search/cats'' \<mapsto> search_entry],
      st_allowedUrls = None\<rparr>"

definition idle_engine :: engine where
  "idle_engine = \<lparr>eng_store = demo_active_store, eng_activeUrls = {}\<rparr>"


section \<open>The exemption rule in the specification's words\<close>

text \<open>
  The specification describes the classifier by scheme and origin: an internal browser
  scheme, the extension-page scheme, the local file scheme, the analyzer's origin, or the
  extension's own block page. This predicate follows those words; it exists to be
  compared with \<open>isExemptUrl\<close>.
\<close>

definition spec_isExempt :: "env \<Rightarrow> string \<Rightarrow> bool" where
  "spec_isExempt e u =
     (startsWith u ''chrome://'' \<or> startsWith u ''opera://'' \<or> startsWith u ''about:'' \<or>
      startsWith u ''chrome-extension://'' \<or>
      startsWith u ''file://'' \<or>
      (case new_URL e u of None \<Rightarrow> False | Some p \<Rightarrow> origin p = ''http://localhost:5000'') \<or>
      startsWith u (getURL e ''block.html''))"


section \<open>Basic facts\<close>

lemma startsWith_append: "startsWith (p @ s) p"
  by (simp add: startsWith_def)

lemma http_nonempty: "startsWith u ''http'' \<Longrightarrow> u \<noteq> []"
  by (auto simp: startsWith_def)

lemma not_exempt_not_block: "\<not> isExemptUrl e u \<Longrightarrow> \<not> isBlockPage e u"
  by (simp add: isExemptUrl_def)

lemma not_exempt_not_block_inline:
  "\<not> isExemptUrl e u \<Longrightarrow> \<not> (str_includes u (runtime_id e) \<and> str_includes u ''block.html'')"
  by (simp add: isExemptUrl_def isBlockPage_def)

lemma demo_nav_frame: "frameId demo_nav = 0"
  by (simp add: demo_nav_def)

lemma demo_nav_http: "startsWith (url demo_nav) ''http''"
  by code_simp

lemma demo_nav_not_exempt: "\<not> isExemptUrl demo_env (url demo_nav)"
  by code_simp

lemma cleared_inactive: "\<not> sessionActive cleared"
  by (simp add: sessionActive_def cleared_def)

lemma demo_store_active: "sessionActive demo_store"
  by (simp add: sessionActive_def demo_store_def demo_session_def)

lemma demo_nav_no_query: "extractSearchQuery demo_env (url demo_nav) = []"
  by code_simp

lemma demo_nav_parses:
  "new_URL demo_env (url demo_nav) =
     Some \<lparr>origin = ''https://a.test'', hostname = ''a.test'', pathname = ''/x'',
           searchParams = [], fragment = []\<rparr>"
  by (simp add: demo_env_def demo_URL_def demo_nav_def)

lemma demo_session_state: "s_state demo_session = ''active''"
  by (simp add: demo_session_def)

lemma demo_store_session: "st_sessionData demo_store = Some demo_session"
  by (simp add: demo_store_def)

lemma demo_store_not_blocked:
  "lookup2 (table (st_blockedUrls demo_store)) (compositeKey demo_env (url demo_nav))
     (normalizeUrl demo_env (url demo_nav)) = None"
  by code_simp

lemma demo_store_allowed:
  "lookup2 (table (st_allowedUrls demo_store)) (compositeKey demo_env (url demo_nav))
     (normalizeUrl demo_env (url demo_nav)) = Some demo_entry"
  by code_simp

lemma demo_active_store_session: "st_sessionData demo_active_store = Some demo_session"
  by (simp add: demo_active_store_def)

lemma demo_active_store_not_blocked:
  "lookup2 (table (st_blockedUrls demo_active_store)) (compositeKey demo_env (url demo_nav))
     (normalizeUrl demo_env (url demo_nav)) = None"
  by code_simp

lemma demo_active_store_not_allowed:
  "lookup2 (table (st_allowedUrls demo_active_store)) (compositeKey demo_env (url demo_nav))
     (normalizeUrl demo_env (url demo_nav)) = None"
  by code_simp

lemma length_toLowerCase: "length (toLowerCase s) = length s"
  by (simp add: toLowerCase_def)

lemma toLowerCase_append: "toLowerCase (a @ b) = toLowerCase a @ toLowerCase b"
  by (simp add: toLowerCase_def)

lemma lower_char_o: "lower_char CHR ''o'' = CHR ''o''"
  by code_simp

section \<open>Scope of the pre-navigation handler\<close>

text \<open>
  C10. A navigation signal of a subframe (\<open>frameId \<noteq> 0\<close>), or one whose address does not
  start with \<open>http\<close>, makes the pre-navigation handler return at once: it reads nothing
  from the store, redirects no tab and leaves the in-flight set as it was, whatever the
  store holds (so also without a session). Both Opera scripts behave so.
\<close>

theorem gate_scope_restriction:
  "frameId d \<noteq> 0 \<or> \<not> startsWith (url d) ''http'' \<Longrightarrow>
     onBeforeNavigate e d rd activeUrls = ([], activeUrls) \<and>
     onBeforeNavigate_simple e d rd = []"
  by (auto simp: onBeforeNavigate_def onBeforeNavigate_simple_def)

theorem gate_scope_restriction_witness:
  "frameId (demo_nav\<lparr>frameId := 3\<rparr>) \<noteq> 0 \<and>
   onBeforeNavigate demo_env (demo_nav\<lparr>frameId := 3\<rparr>) (Inr cleared) {} = ([], {}) \<and>
   onBeforeNavigate_simple demo_env (demo_nav\<lparr>frameId := 3\<rparr>) (Inr cleared) = []"
  using gate_scope_restriction [of "demo_nav\<lparr>frameId := 3\<rparr>" demo_env "Inr cleared" "{}"]
  by (simp add: demo_nav_def)

section \<open>Failures while handling a navigation\<close>

text \<open>
  C9, as the code has it. When a read of the store fails while a main-frame \<open>http(s)\<close>
  navigation to a non-exempt address is handled, both handlers of background.js send
  the tab to the block page with \<open>reason=error\<close> and leave the in-flight set unchanged:
  on the failed read of the pre-navigation handler, on the failed session read of the
  tab-update handler, and on its failed read of the two tables under an active session.
\<close>

theorem default_deny_on_error:
  assumes "frameId d = 0" and "startsWith (url d) ''http''" and "\<not> isExemptUrl e (url d)"
  shows "onBeforeNavigate e d (Inl err) activeUrls =
           ([StorageGet navKeys, TabsUpdate (tabId d) (errorPage e (url d))], activeUrls) \<and>
         onUpdated e t (Some (url d)) (Inl err) rd2 activeUrls =
           ([StorageGet [''sessionData''], TabsUpdate t (errorPage e (url d))], activeUrls) \<and>
         (sessionActive data \<longrightarrow>
          onUpdated e t (Some (url d)) (Inr data) (Inl err) activeUrls =
            ([StorageGet [''sessionData''], StorageGet [''blockedUrls'', ''allowedUrls''],
              TabsUpdate t (errorPage e (url d))], activeUrls))"
  using assms not_exempt_not_block[OF assms(3)] http_nonempty[OF assms(2)]
  by (simp add: onBeforeNavigate_def onUpdated_def sessionActive_def split: option.splits)

theorem default_deny_on_error_witness:
  "frameId demo_nav = 0 \<and> startsWith (url demo_nav) ''http'' \<and>
   \<not> isExemptUrl demo_env (url demo_nav) \<and> sessionActive demo_store \<and>
   onBeforeNavigate demo_env demo_nav (Inl StorageError) {} =
     ([StorageGet navKeys, TabsUpdate (tabId demo_nav) (errorPage demo_env (url demo_nav))], {}) \<and>
   onUpdated demo_env 1 (Some (url demo_nav)) (Inl StorageError) (Inr cleared) {} =
     ([StorageGet [''sessionData''], TabsUpdate 1 (errorPage demo_env (url demo_nav))], {}) \<and>
   onUpdated demo_env 1 (Some (url demo_nav)) (Inr demo_store) (Inl StorageError) {} =
     ([StorageGet [''sessionData''], StorageGet [''blockedUrls'', ''allowedUrls''],
       TabsUpdate 1 (errorPage demo_env (url demo_nav))], {})"
  using default_deny_on_error [OF demo_nav_frame demo_nav_http demo_nav_not_exempt,
          of StorageError "{}" 1 "Inr cleared" demo_store]
        demo_nav_frame demo_nav_http demo_nav_not_exempt demo_store_active
  by simp

text \<open>
  The claim as stated fails for an exempt address: a failed read while the analyzer's
  own page is loading redirects nothing.
\<close>

theorem error_on_exempt_url_not_blocked:
  "frameId analyzer_nav = 0 \<and> startsWith (url analyzer_nav) ''http'' \<and>
   onBeforeNavigate demo_env analyzer_nav (Inl StorageError) {} = ([StorageGet navKeys], {})"
  by code_simp

section \<open>Session expiry at the gate\<close>

text \<open>
  C1, as the code has it. The gate looks at the stored state only. For a main-frame
  \<open>http(s)\<close> navigation to a non-exempt address: when the store has no session or its
  state is not \<open>active\<close>, both handlers send the tab to the block page with
  \<open>reason=no-session\<close>. Expiry is the work of the timers: run at a time at or after a
  stored \<open>endTime\<close>, \<open>checkSessionTimeout\<close> and the block page's \<open>updateTimer\<close> clear the
  store, and on the cleared store the handlers block in the same way.
\<close>

theorem no_session_blocks_expiry_by_sweep:
  assumes "frameId d = 0" and "startsWith (url d) ''http''" and "\<not> isExemptUrl e (url d)"
  shows "(\<not> sessionActive st \<longrightarrow>
            onBeforeNavigate e d (Inr st) act =
              ([StorageGet navKeys, TabsUpdate (tabId d) (noSessionPage e (url d))], act) \<and>
            onUpdated e t (Some (url d)) (Inr st) rd2 act =
              ([StorageGet [''sessionData''], TabsUpdate t (noSessionPage e (url d))], act)) \<and>
         (st_sessionData st = Some sd \<and> s_endTime sd = Some endTime \<and> endTime \<noteq> 0 \<and>
          endTime \<le> now \<longrightarrow>
            snd (checkSessionTimeout e now st tabs) = cleared \<and>
            updateTimer now st = cleared \<and>
            onBeforeNavigate e d (Inr cleared) act =
              ([StorageGet navKeys, TabsUpdate (tabId d) (noSessionPage e (url d))], act) \<and>
            onUpdated e t (Some (url d)) (Inr cleared) rd2 act =
              ([StorageGet [''sessionData''], TabsUpdate t (noSessionPage e (url d))], act))"
proof -
  have blocks: "onBeforeNavigate e d (Inr s) act =
              ([StorageGet navKeys, TabsUpdate (tabId d) (noSessionPage e (url d))], act) \<and>
            onUpdated e t (Some (url d)) (Inr s) rd2 act =
              ([StorageGet [''sessionData''], TabsUpdate t (noSessionPage e (url d))], act)"
    if "\<not> sessionActive s" for s
    using that assms http_nonempty[OF assms(2)]
    by (simp add: onBeforeNavigate_def onUpdated_def)
  have swept: "snd (checkSessionTimeout e now st tabs) = cleared \<and> updateTimer now st = cleared"
    if "st_sessionData st = Some sd" "s_endTime sd = Some endTime" "endTime \<noteq> 0" "endTime \<le> now"
    using that by (simp add: checkSessionTimeout_def updateTimer_def)
  show ?thesis
    using blocks[of st] blocks[of cleared] swept cleared_inactive by auto
qed

theorem no_session_blocks_expiry_by_sweep_witness:
  "frameId demo_nav = 0 \<and> startsWith (url demo_nav) ''http'' \<and>
   \<not> isExemptUrl demo_env (url demo_nav) \<and> \<not> sessionActive cleared \<and>
   st_sessionData demo_store = Some demo_session \<and> s_endTime demo_session = Some 1000 \<and>
   onBeforeNavigate demo_env demo_nav (Inr cleared) {} =
     ([StorageGet navKeys, TabsUpdate 1 (noSessionPage demo_env (url demo_nav))], {}) \<and>
   onUpdated demo_env 1 (Some (url demo_nav)) (Inr cleared) (Inr cleared) {} =
     ([StorageGet [''sessionData''], TabsUpdate 1 (noSessionPage demo_env (url demo_nav))], {}) \<and>
   snd (checkSessionTimeout demo_env 5000 demo_store []) = cleared \<and>
   updateTimer 5000 demo_store = cleared"
  using no_session_blocks_expiry_by_sweep [OF demo_nav_frame demo_nav_http demo_nav_not_exempt,
          of cleared "{}" 1 "Inr cleared" demo_session 1000 5000 "[]"]
        no_session_blocks_expiry_by_sweep [OF demo_nav_frame demo_nav_http demo_nav_not_exempt,
          of demo_store "{}" 1 "Inr cleared" demo_session 1000 5000 "[]"]
        demo_nav_frame demo_nav_http demo_nav_not_exempt cleared_inactive
  by (simp add: demo_store_def demo_session_def demo_nav_def)

text \<open>
  The claim as stated fails: with a stored session that still says \<open>active\<close> and whose
  \<open>endTime\<close> (1000) lies before the time of the navigation (5000), the tab-update handler
  lets a cached allowed address through, and the pre-navigation handler sends the tab to
  the analysis page rather than to the no-session block.
\<close>

theorem expired_active_session_not_blocked:
  "s_state demo_session = ''active'' \<and> s_endTime demo_session = Some 1000 \<and> (1000::int) < 5000 \<and>
   onUpdated demo_env 1 (Some ''https://a.test/x'') (Inr demo_store) (Inr demo_store) {} =
     ([StorageGet [''sessionData''], StorageGet [''blockedUrls'', ''allowedUrls''],
       SendMessage (URL_ANALYSIS_UPDATE ''https://a.test/x'' ''allowed'' ''fine'')], {}) \<and>
   onBeforeNavigate demo_env demo_nav (Inr demo_store) {} =
     ([StorageGet navKeys,
       TabsUpdate 1 (analyzingPage demo_env ''https://a.test/x'' demo_session)],
      {''https://a.test/x''})"
  by code_simp

section \<open>Cached verdicts\<close>

text \<open>
  C2, as the code has it. Under an active session, a tab-update signal for a non-exempt
  \<open>http(s)\<close> address that has no blocked entry and has an entry in the allowed table (under
  the composite key or the normalized key) is let through: the handler redirects nothing,
  leaves the in-flight set alone and only sends the popup a notification. The
  pre-navigation handler never consults the allowed table: for the same address (without
  a search query) it sends the tab to the analysis page and marks the address in flight.
\<close>

theorem cached_allow_on_tab_update:
  assumes "startsWith u ''http''" and "\<not> isExemptUrl e u"
    and "st_sessionData st = Some sd" and "s_state sd = ''active''"
    and "lookup2 (table (st_blockedUrls st)) (compositeKey e u) (normalizeUrl e u) = None"
    and "lookup2 (table (st_allowedUrls st)) (compositeKey e u) (normalizeUrl e u) = Some a"
  shows "onUpdated e t (Some u) (Inr st) (Inr st) act =
           ([StorageGet [''sessionData''], StorageGet [''blockedUrls'', ''allowedUrls''],
             SendMessage (URL_ANALYSIS_UPDATE u ''allowed''
               (or_default (e_reason a) ''Content is productive''))], act) \<and>
         (frameId d = 0 \<and> url d = u \<and> extractSearchQuery e u = [] \<longrightarrow>
          onBeforeNavigate e d (Inr st) act =
            ([StorageGet navKeys, TabsUpdate (tabId d) (analyzingPage e u sd)], insert u act))"
  using assms not_exempt_not_block[OF assms(2)] not_exempt_not_block_inline[OF assms(2)]
    http_nonempty[OF assms(1)]
  by (auto simp: onUpdated_def onBeforeNavigate_def compositeKey_def Let_def sessionActive_def)

theorem cached_allow_on_tab_update_witness:
  "startsWith (url demo_nav) ''http'' \<and> \<not> isExemptUrl demo_env (url demo_nav) \<and>
   s_state demo_session = ''active'' \<and>
   lookup2 (table (st_allowedUrls demo_store)) (compositeKey demo_env (url demo_nav))
     (normalizeUrl demo_env (url demo_nav)) = Some demo_entry \<and>
   onUpdated demo_env 1 (Some (url demo_nav)) (Inr demo_store) (Inr demo_store) {} =
     ([StorageGet [''sessionData''], StorageGet [''blockedUrls'', ''allowedUrls''],
       SendMessage (URL_ANALYSIS_UPDATE (url demo_nav) ''allowed''
         (or_default (e_reason demo_entry) ''Content is productive''))], {}) \<and>
   onBeforeNavigate demo_env demo_nav (Inr demo_store) {} =
     ([StorageGet navKeys,
       TabsUpdate (tabId demo_nav) (analyzingPage demo_env (url demo_nav) demo_session)],
      {url demo_nav})"
  using cached_allow_on_tab_update [OF demo_nav_http demo_nav_not_exempt demo_store_session
          demo_session_state demo_store_not_blocked demo_store_allowed,
          where t = 1 and act = "{}" and d = demo_nav]
        demo_nav_http demo_nav_not_exempt demo_session_state demo_store_allowed
        demo_nav_frame demo_nav_no_query
  by simp

text \<open>
  The claim as stated fails on the pre-navigation signal: with an active session and the
  address in the allowed table, the tab is still sent to the analysis page.
\<close>

theorem cached_allowed_url_still_analyzed:
  "sessionActive demo_store \<and> extractSearchQuery demo_env (url demo_nav) = [] \<and>
   table (st_allowedUrls demo_store) (compositeKey demo_env (url demo_nav)) = Some demo_entry \<and>
   onBeforeNavigate demo_env demo_nav (Inr demo_store) {} =
     ([StorageGet navKeys,
       TabsUpdate 1 (analyzingPage demo_env ''https://a.test/x'' demo_session)],
      {''https://a.test/x''})"
  by code_simp

section \<open>The in-flight set\<close>

text \<open>
  C3, as the code has it. The in-flight set holds raw addresses and only the tab-update
  handler consults it. Under an active session, for a non-exempt \<open>http(s)\<close> address with
  no cached verdict: a tab-update signal takes no action when the address is already in
  the set, and otherwise adds it and sends the tab to the analysis page; a pre-navigation
  signal (address without a search query) sends the tab to the analysis page whether or
  not the address is in the set.
\<close>

theorem in_flight_suppresses_tab_update:
  assumes "startsWith u ''http''" and "\<not> isExemptUrl e u"
    and "st_sessionData st = Some sd" and "s_state sd = ''active''"
    and "lookup2 (table (st_blockedUrls st)) (compositeKey e u) (normalizeUrl e u) = None"
    and "lookup2 (table (st_allowedUrls st)) (compositeKey e u) (normalizeUrl e u) = None"
  shows "(u \<in> act \<longrightarrow>
            onUpdated e t (Some u) (Inr st) (Inr st) act =
              ([StorageGet [''sessionData''], StorageGet [''blockedUrls'', ''allowedUrls'']],
               act)) \<and>
         (u \<notin> act \<longrightarrow>
            onUpdated e t (Some u) (Inr st) (Inr st) act =
              ([StorageGet [''sessionData''], StorageGet [''blockedUrls'', ''allowedUrls''],
                TabsUpdate t (analyzingPage e u sd)], insert u act)) \<and>
         (frameId d = 0 \<and> url d = u \<and> extractSearchQuery e u = [] \<longrightarrow>
            onBeforeNavigate e d (Inr st) act =
              ([StorageGet navKeys, TabsUpdate (tabId d) (analyzingPage e u sd)], insert u act))"
  using assms not_exempt_not_block[OF assms(2)] not_exempt_not_block_inline[OF assms(2)]
    http_nonempty[OF assms(1)]
  by (auto simp: onUpdated_def onBeforeNavigate_def compositeKey_def Let_def sessionActive_def)

theorem in_flight_suppresses_tab_update_witness:
  "startsWith (url demo_nav) ''http'' \<and> \<not> isExemptUrl demo_env (url demo_nav) \<and>
   s_state demo_session = ''active'' \<and>
   onUpdated demo_env 1 (Some (url demo_nav)) (Inr demo_active_store) (Inr demo_active_store)
       {url demo_nav} =
     ([StorageGet [''sessionData''], StorageGet [''blockedUrls'', ''allowedUrls'']],
      {url demo_nav}) \<and>
   onUpdated demo_env 1 (Some (url demo_nav)) (Inr demo_active_store) (Inr demo_active_store) {} =
     ([StorageGet [''sessionData''], StorageGet [''blockedUrls'', ''allowedUrls''],
       TabsUpdate 1 (analyzingPage demo_env (url demo_nav) demo_session)], {url demo_nav}) \<and>
   onBeforeNavigate demo_env demo_nav (Inr demo_active_store) {url demo_nav} =
     ([StorageGet navKeys,
       TabsUpdate (tabId demo_nav) (analyzingPage demo_env (url demo_nav) demo_session)],
      {url demo_nav})"
  using in_flight_suppresses_tab_update [OF demo_nav_http demo_nav_not_exempt
          demo_active_store_session demo_session_state demo_active_store_not_blocked
          demo_active_store_not_allowed,
          where t = 1 and act = "{url demo_nav}" and d = demo_nav]
        in_flight_suppresses_tab_update [OF demo_nav_http demo_nav_not_exempt
          demo_active_store_session demo_session_state demo_active_store_not_blocked
          demo_active_store_not_allowed,
          where t = 1 and act = "{}" and d = demo_nav]
        demo_nav_http demo_nav_not_exempt demo_session_state demo_nav_frame demo_nav_no_query
  by simp

text \<open>
  The claim as stated fails: a second pre-navigation signal for the same address, handled
  while the first one's marker is still in the set, redirects the tab to the analysis page
  again.
\<close>

theorem second_signal_still_redirects:
  "url demo_nav \<in> snd (onBeforeNavigate demo_env demo_nav (Inr demo_active_store) {}) \<and>
   onBeforeNavigate demo_env demo_nav (Inr demo_active_store)
       (snd (onBeforeNavigate demo_env demo_nav (Inr demo_active_store) {})) =
     ([StorageGet navKeys,
       TabsUpdate 1 (analyzingPage demo_env ''https://a.test/x'' demo_session)],
      {''https://a.test/x''})"
  by code_simp

section \<open>A failed analysis call\<close>

text \<open>
  C4, at a failing input. The analysis of \<open>https://a.test/x\<close> fails with a network error
  while the address is marked in flight. The page shows its error section after one
  request and sends no message, so the engine's store and in-flight set stay as they
  were: no entry is written, but the marker is not removed either, and the next
  tab-update signal for the address takes no action.
\<close>

theorem analysis_failure_keeps_in_flight_marker:
  "shown (handleAnalysis demo_env 100 NetworkError ''https://a.test/x'' ''https://a.test/x''
            (Some ''work'') demo_session demo_page) = ''error'' \<and>
   sent (handleAnalysis demo_env 100 NetworkError ''https://a.test/x'' ''https://a.test/x''
            (Some ''work'') demo_session demo_page) = [] \<and>
   calls (handleAnalysis demo_env 100 NetworkError ''https://a.test/x'' ''https://a.test/x''
            (Some ''work'') demo_session demo_page) = 1 \<and>
   deliver demo_env 100
     (sent (handleAnalysis demo_env 100 NetworkError ''https://a.test/x'' ''https://a.test/x''
              (Some ''work'') demo_session demo_page)) demo_engine = demo_engine \<and>
   ''https://a.test/x'' \<in> eng_activeUrls demo_engine \<and>
   onUpdated demo_env 1 (Some ''https://a.test/x'') (Inr (eng_store demo_engine))
       (Inr (eng_store demo_engine)) (eng_activeUrls demo_engine) =
     ([StorageGet [''sessionData''], StorageGet [''blockedUrls'', ''allowedUrls'']],
      {''https://a.test/x''})"
proof -
  have a: "shown (handleAnalysis demo_env 100 NetworkError ''https://a.test/x''
            ''https://a.test/x'' (Some ''work'') demo_session demo_page) = ''error''"
    by code_simp
  have b: "sent (handleAnalysis demo_env 100 NetworkError ''https://a.test/x''
            ''https://a.test/x'' (Some ''work'') demo_session demo_page) = []"
    by code_simp
  have c: "calls (handleAnalysis demo_env 100 NetworkError ''https://a.test/x''
            ''https://a.test/x'' (Some ''work'') demo_session demo_page) = 1"
    by code_simp
  have d: "''https://a.test/x'' \<in> eng_activeUrls demo_engine"
    by code_simp
  have f: "onUpdated demo_env 1 (Some ''https://a.test/x'') (Inr (eng_store demo_engine))
       (Inr (eng_store demo_engine)) (eng_activeUrls demo_engine) =
     ([StorageGet [''sessionData''], StorageGet [''blockedUrls'', ''allowedUrls'']],
      {''https://a.test/x''})"
    by code_simp
  show ?thesis
    using a b c d f by simp
qed

text \<open>
  The same holds of every failed call that is not answered from the page's own cache:
  the page sends nothing and caches nothing.
\<close>

lemma failed_analysis_sends_nothing:
  assumes "outcome = NetworkError \<or> outcome = HttpError status"
    and "cache pg (u, domainParam, s_startTime sd, extractSearchQuery e u) = None"
  shows "sent (handleAnalysis e now outcome u originalUrl domainParam sd pg) = sent pg \<and>
         shown (handleAnalysis e now outcome u originalUrl domainParam sd pg) = ''error'' \<and>
         cache (handleAnalysis e now outcome u originalUrl domainParam sd pg) = cache pg"
  using assms by (auto simp: handleAnalysis_def Let_def)

text \<open>
  A blocked verdict, by contrast, reaches the engine as a message, and the handler of
  that message removes the marker.
\<close>

lemma blocked_verdict_clears_marker:
  "eng_activeUrls (deliver demo_env 100
     (sent (handleAnalysis demo_env 100 (HttpOk \<lparr>isProductive = False, explanation = ''off task''\<rparr>)
        ''https://a.test/x'' ''https://a.test/x'' (Some ''work'') demo_session demo_page))
     demo_engine) = {}"
  by code_simp

section \<open>Recording verdicts\<close>

text \<open>
  C6, as the code has it. Each table is a map, so it holds at most one entry per key.
  Recording a verdict for an address that parses replaces the entry under the address's
  key in the verdict's own table (the new entry wins over any earlier one) and leaves
  the other table exactly as it was; nothing removes the key there.
\<close>

theorem record_overwrites_own_set_only:
  assumes "new_URL e u = Some p"
  shows "table (st_blockedUrls (eng_store (snd (onMessage e now (URL_BLOCKED u r) eng)))) =
           (table (st_blockedUrls (eng_store eng)))(getUrlKey e u \<mapsto>
              \<lparr>e_url = u, e_timestamp = now,
               e_reason = reason_or r ''Not relevant to current task'',
               e_searchQuery = param_or_empty (searchParams p) ''q''\<rparr>) \<and>
         st_allowedUrls (eng_store (snd (onMessage e now (URL_BLOCKED u r) eng))) =
           st_allowedUrls (eng_store eng) \<and>
         table (st_allowedUrls (eng_store (snd (onMessage e now (URL_ALLOWED u r) eng)))) =
           (table (st_allowedUrls (eng_store eng)))(getUrlKey e u \<mapsto>
              \<lparr>e_url = u, e_timestamp = now,
               e_reason = reason_or r ''Content is productive'',
               e_searchQuery = param_or_empty (searchParams p) ''q''\<rparr>) \<and>
         st_blockedUrls (eng_store (snd (onMessage e now (URL_ALLOWED u r) eng))) =
           st_blockedUrls (eng_store eng)"
  using assms by (simp add: onMessage_def Let_def table_def)

theorem record_overwrites_own_set_only_witness:
  "table (st_blockedUrls (eng_store (snd (onMessage demo_env 100
       (URL_BLOCKED (url demo_nav) (Some ''later'')) demo_engine))))
     (getUrlKey demo_env (url demo_nav)) =
     Some \<lparr>e_url = url demo_nav, e_timestamp = 100, e_reason = ''later'', e_searchQuery = []\<rparr> \<and>
   st_allowedUrls (eng_store (snd (onMessage demo_env 100
       (URL_BLOCKED (url demo_nav) (Some ''later'')) demo_engine))) =
     st_allowedUrls (eng_store demo_engine) \<and>
   table (st_allowedUrls (eng_store (snd (onMessage demo_env 100
       (URL_ALLOWED (url demo_nav) (Some ''later'')) demo_engine))))
     (getUrlKey demo_env (url demo_nav)) =
     Some \<lparr>e_url = url demo_nav, e_timestamp = 100, e_reason = ''later'', e_searchQuery = []\<rparr> \<and>
   st_blockedUrls (eng_store (snd (onMessage demo_env 100
       (URL_ALLOWED (url demo_nav) (Some ''later'')) demo_engine))) =
     st_blockedUrls (eng_store demo_engine)"
  using record_overwrites_own_set_only [OF demo_nav_parses,
          where now = 100 and r = "Some ''later''" and eng = demo_engine]
  by (simp add: reason_or_def or_default_def param_or_empty_def)

text \<open>
  The claim as stated fails: after an allowed verdict and then a blocked verdict for the
  same address, its key is in both tables.
\<close>

theorem key_in_both_sets:
  "table (st_blockedUrls (eng_store (deliver demo_env 100
      [URL_ALLOWED ''https://a.test/x'' None, URL_BLOCKED ''https://a.test/x'' (Some ''later'')]
      demo_engine))) (getUrlKey demo_env ''https://a.test/x'') \<noteq> None \<and>
   table (st_allowedUrls (eng_store (deliver demo_env 100
      [URL_ALLOWED ''https://a.test/x'' None, URL_BLOCKED ''https://a.test/x'' (Some ''later'')]
      demo_engine))) (getUrlKey demo_env ''https://a.test/x'') \<noteq> None"
  by code_simp

section \<open>Keys of search queries\<close>

lemma tagged_key_inj:
  assumes "toLowerCase (a @ q1) @ ''::'' @ q1 = toLowerCase (a @ q2) @ ''::'' @ q2"
  shows "q1 = q2"
proof -
  have "length (toLowerCase (a @ q1) @ ''::'' @ q1) =
        length (toLowerCase (a @ q2) @ ''::'' @ q2)"
    using assms by simp
  then have len: "length q1 = length q2"
    by (simp add: length_toLowerCase)
  have "(toLowerCase (a @ q1) @ ''::'') @ q1 = (toLowerCase (a @ q2) @ ''::'') @ q2"
    using assms by simp
  then show ?thesis
    using len by (metis append_eq_append_conv)
qed

lemma home_key_distinct:
  assumes "q \<noteq> []"
  shows "toLowerCase (a @ ''home'') \<noteq> toLowerCase (a @ q) @ ''::'' @ q"
proof
  assume eq: "toLowerCase (a @ ''home'') = toLowerCase (a @ q) @ ''::'' @ q"
  then have "length (toLowerCase (a @ ''home'')) = length (toLowerCase (a @ q) @ ''::'' @ q)"
    by simp
  then have "length q = 1"
    by (simp add: length_toLowerCase)
  then obtain c where q: "q = [c]"
    by (cases q) auto
  from eq have "toLowerCase ''home'' = toLowerCase q @ ''::'' @ q"
    by (simp add: toLowerCase_append)
  then show False
    by (simp add: q toLowerCase_def lower_char_o)
qed

lemma search_normalizeUrl:
  assumes "new_URL e u = Some p" and "isSearchHost (hostname p)"
  shows "normalizeUrl e u =
           toLowerCase (origin p @ ''/search/'') @
           toLowerCase (or_default (extractSearchQuery e u) ''home'')"
  using assms
  by (simp add: normalizeUrl_def isSearchHost_def Let_def or_default_def toLowerCase_def)

lemma google_Cats_parses:
  "new_URL demo_env ''https://www.google.com/search?q=Cats'' =
     Some \<lparr>origin = ''https://www.google.com'', hostname = ''www.google.com'',
           pathname = ''/search'', searchParams = [(''q'', ''Cats'')], fragment = []\<rparr>"
  by (simp add: demo_env_def demo_URL_def)

lemma google_cats_parses:
  "new_URL demo_env ''https://www.google.com/search?q=cats'' =
     Some \<lparr>origin = ''https://www.google.com'', hostname = ''www.google.com'',
           pathname = ''/search'', searchParams = [(''q'', ''cats'')], fragment = []\<rparr>"
  by (simp add: demo_env_def demo_URL_def)

lemma google_queries_differ:
  "isSearchHost ''www.google.com'' \<and>
   extractSearchQuery demo_env ''https://www.google.com/search?q=Cats'' = ''Cats'' \<and>
   extractSearchQuery demo_env ''https://www.google.com/search?q=cats'' = ''cats'' \<and>
   toLowerCase ''Cats'' = toLowerCase ''cats''"
  by code_simp

text \<open>
  C8, as the code has it. For two addresses with the same origin on recognized search
  hosts: when their search queries differ, their composite keys in background.js differ.
  The key that every lookup falls back to is shared all the same: in background.js the
  normalized key of two such addresses is equal exactly when their queries (\<open>home\<close> for an
  empty one) are equal up to letter case, and in the Chrome script the normalized key of
  two addresses with the same host name and path is equal whatever their queries are.
\<close>

theorem search_keys_differ_fallback_shared:
  assumes "new_URL e u1 = Some p1" and "new_URL e u2 = Some p2"
  shows "(isSearchHost (hostname p1) \<and> isSearchHost (hostname p2) \<and> origin p1 = origin p2 \<longrightarrow>
            (extractSearchQuery e u1 \<noteq> extractSearchQuery e u2 \<longrightarrow>
               compositeKey e u1 \<noteq> compositeKey e u2) \<and>
            (normalizeUrl e u1 = normalizeUrl e u2 \<longleftrightarrow>
               toLowerCase (or_default (extractSearchQuery e u1) ''home'') =
               toLowerCase (or_default (extractSearchQuery e u2) ''home''))) \<and>
         (hostname p1 = hostname p2 \<and> pathname p1 = pathname p2 \<longrightarrow>
            normalizeUrl_chrome e u1 = normalizeUrl_chrome e u2)"
proof (intro conjI impI)
  assume h: "isSearchHost (hostname p1) \<and> isSearchHost (hostname p2) \<and> origin p1 = origin p2"
  let ?a = "origin p1 @ ''/search/''"
  let ?q1 = "extractSearchQuery e u1" and ?q2 = "extractSearchQuery e u2"
  have k1: "compositeKey e u1 =
      (if ?q1 \<noteq> [] then toLowerCase (?a @ ?q1) @ ''::'' @ ?q1 else toLowerCase (?a @ ''home''))"
    using assms h by (simp add: compositeKey_def normalizeUrl_def isSearchHost_def Let_def)
  have k2: "compositeKey e u2 =
      (if ?q2 \<noteq> [] then toLowerCase (?a @ ?q2) @ ''::'' @ ?q2 else toLowerCase (?a @ ''home''))"
    using assms h by (simp add: compositeKey_def normalizeUrl_def isSearchHost_def Let_def)
  show "compositeKey e u1 \<noteq> compositeKey e u2" if ne: "?q1 \<noteq> ?q2"
  proof
    assume eq: "compositeKey e u1 = compositeKey e u2"
    consider (both) "?q1 \<noteq> []" "?q2 \<noteq> []" | (first) "?q1 = []" "?q2 \<noteq> []"
      | (second) "?q1 \<noteq> []" "?q2 = []"
      using ne by fastforce
    then show False
    proof cases
      case both
      then show ?thesis using eq k1 k2 ne tagged_key_inj[of ?a ?q1 ?q2] by simp
    next
      case first
      then show ?thesis using eq k1 k2 home_key_distinct[of ?q2 ?a] by simp
    next
      case second
      then show ?thesis using eq k1 k2 home_key_distinct[of ?q1 ?a] by simp
    qed
  qed
  show "normalizeUrl e u1 = normalizeUrl e u2 \<longleftrightarrow>
          toLowerCase (or_default ?q1 ''home'') = toLowerCase (or_default ?q2 ''home'')"
    using h search_normalizeUrl[OF assms(1)] search_normalizeUrl[OF assms(2)] by simp
next
  assume "hostname p1 = hostname p2 \<and> pathname p1 = pathname p2"
  then show "normalizeUrl_chrome e u1 = normalizeUrl_chrome e u2"
    using assms by (simp add: normalizeUrl_chrome_def)
qed

theorem search_keys_differ_fallback_shared_witness:
  "isSearchHost ''www.google.com'' \<and>
   extractSearchQuery demo_env ''https://www.google.com/search?q=Cats'' = ''Cats'' \<and>
   extractSearchQuery demo_env ''https://www.google.com/search?q=cats'' = ''cats'' \<and>
   compositeKey demo_env ''https://www.google.com/search?q=Cats'' \<noteq>
     compositeKey demo_env ''https://www.google.com/search?q=cats'' \<and>
   normalizeUrl demo_env ''https://www.google.com/search?q=Cats'' =
     normalizeUrl demo_env ''https://www.google.com/search?q=cats'' \<and>
   normalizeUrl_chrome demo_env ''https://www.google.com/search?q=Cats'' =
     normalizeUrl_chrome demo_env ''https://www.google.com/search?q=cats''"
  using search_keys_differ_fallback_shared [OF google_Cats_parses google_cats_parses]
        google_queries_differ
  by (simp add: or_default_def)

text \<open>
  The claim as stated fails: searches with different queries on one search host are
  served from one cache entry. In the Chrome script, the verdict recorded for the search
  page without a query is applied to the searches for \<open>cats\<close> and for \<open>dogs\<close>; in
  background.js, an entry under the normalized key is applied to the searches for \<open>Cats\<close>
  and for \<open>cats\<close>.
\<close>

theorem searches_share_cache_entry:
  "table (st_blockedUrls (eng_store (deliver demo_env 100
      [URL_BLOCKED ''https://www.google.com/search'' (Some ''no searching'')] idle_engine)))
     ''www.google.com/search'' = Some search_entry \<and>
   onUpdated_chrome demo_env 1 ''complete'' (Some ''https://www.google.com/search?q=cats'')
       (Inr (eng_store (deliver demo_env 100
          [URL_BLOCKED ''https://www.google.com/search'' (Some ''no searching'')] idle_engine)))
       (Inr (eng_store (deliver demo_env 100
          [URL_BLOCKED ''https://www.google.com/search'' (Some ''no searching'')] idle_engine)))
       {} =
     ([StorageGet [''sessionData''], StorageGet [''blockedUrls'', ''allowedUrls''],
       SendMessage (URL_ANALYSIS_UPDATE ''https://www.google.com/search?q=cats'' ''blocked''
         ''no searching''),
       TabsUpdate 1 (blockedPage demo_env ''https://www.google.com/search?q=cats''
         demo_session search_entry)], {}) \<and>
   onUpdated_chrome demo_env 1 ''complete'' (Some ''https://www.google.com/search?q=dogs'')
       (Inr (eng_store (deliver demo_env 100
          [URL_BLOCKED ''https://www.google.com/search'' (Some ''no searching'')] idle_engine)))
       (Inr (eng_store (deliver demo_env 100
          [URL_BLOCKED ''https://www.google.com/search'' (Some ''no searching'')] idle_engine)))
       {} =
     ([StorageGet [''sessionData''], StorageGet [''blockedUrls'', ''allowedUrls''],
       SendMessage (URL_ANALYSIS_UPDATE ''https://www.google.com/search?q=dogs'' ''blocked''
         ''no searching''),
       TabsUpdate 1 (blockedPage demo_env ''https://www.google.com/search?q=dogs''
         demo_session search_entry)], {}) \<and>
   onUpdated demo_env 1 (Some ''https://www.google.com/search?q=Cats'')
       (Inr folded_store) (Inr folded_store) {} =
     ([StorageGet [''sessionData''], StorageGet [''blockedUrls'', ''allowedUrls''],
       TabsUpdate 1 (blockedPage demo_env ''https://www.google.com/search?q=Cats''
         demo_session search_entry),
       SendMessage (URL_ANALYSIS_UPDATE ''https://www.google.com/search?q=Cats'' ''blocked''
         ''no searching'')], {}) \<and>
   onUpdated demo_env 1 (Some ''https://www.google.com/search?q=cats'')
       (Inr folded_store) (Inr folded_store) {} =
     ([StorageGet [''sessionData''], StorageGet [''blockedUrls'', ''allowedUrls''],
       TabsUpdate 1 (blockedPage demo_env ''https://www.google.com/search?q=cats''
         demo_session search_entry),
       SendMessage (URL_ANALYSIS_UPDATE ''https://www.google.com/search?q=cats'' ''blocked''
         ''no searching'')], {})"
  by code_simp

section \<open>Exempt addresses\<close>

text \<open>
  An exempt address is never redirected by the pre-navigation or the tab-update handler
  of background.js, whatever the store holds or whether its reads fail, and the
  in-flight set is left as it was.
\<close>

lemma exempt_urls_never_redirected:
  assumes "isExemptUrl e u"
  shows "redirects (fst (onBeforeNavigate e \<lparr>frameId = f, tabId = t, url = u\<rparr> rd act)) = [] \<and>
         snd (onBeforeNavigate e \<lparr>frameId = f, tabId = t, url = u\<rparr> rd act) = act \<and>
         redirects (fst (onUpdated e t (Some u) rd rd2 act)) = [] \<and>
         snd (onUpdated e t (Some u) rd rd2 act) = act"
proof (intro conjI)
  show "redirects (fst (onBeforeNavigate e \<lparr>frameId = f, tabId = t, url = u\<rparr> rd act)) = []"
    using assms by (simp add: onBeforeNavigate_def split: sum.splits option.splits)
  show "snd (onBeforeNavigate e \<lparr>frameId = f, tabId = t, url = u\<rparr> rd act) = act"
    using assms by (simp add: onBeforeNavigate_def split: sum.splits option.splits)
  show "redirects (fst (onUpdated e t (Some u) rd rd2 act)) = []"
    using assms by (simp add: onUpdated_def split: sum.splits option.splits)
  show "snd (onUpdated e t (Some u) rd rd2 act) = act"
    using assms by (simp add: onUpdated_def split: sum.splits option.splits)
qed

text \<open>
  C7, at a failing input. The address \<open>https://evil.test/?next=localhost:5000\<close> has origin
  \<open>https://evil.test\<close>: it has none of the exempt schemes, is not of the analyzer's origin
  and is not the block page. Both versions of \<open>isExemptUrl\<close> exempt it all the same,
  because they look for \<open>localhost:5000\<close> anywhere in the address, and so the tab-update
  handler lets it through although no session is active.
\<close>

theorem substring_match_exempts_foreign_origin:
  "origin (the (new_URL demo_env ''https://evil.test/?next=localhost:5000'')) =
     ''https://evil.test'' \<and>
   \<not> spec_isExempt demo_env ''https://evil.test/?next=localhost:5000'' \<and>
   isExemptUrl demo_env ''https://evil.test/?next=localhost:5000'' \<and>
   isExemptUrl_simple demo_env ''https://evil.test/?next=localhost:5000'' \<and>
   onUpdated demo_env 1 (Some ''https://evil.test/?next=localhost:5000'')
       (Inr cleared) (Inr cleared) {} = ([StorageGet [''sessionData'']], {})"
  by code_simp

section \<open>The end of a session\<close>














end
